theory Spec2Isabelle
  imports Main "HOL-Library.AList" "HOL-Library.Sublist"
begin

section \<open>Values exchanged with the workflow engine\<close>

text \<open>
  The admin endpoints handle whatever \<^verbatim>\<open>JSON.parse\<close> produced. An object is kept as
  the list of its own entries in the order \<^verbatim>\<open>Object.entries\<close> yields them (keys are
  distinct in a parsed object). A number is kept as an integer: the handlers only
  look at whether a number is zero and at the \<^verbatim>\<open>length\<close> of arrays.
  \<^verbatim>\<open>undefined\<close> is not a JSON value; a property read that yields it is \<open>None\<close>.
\<close>

datatype json =
    JNull
  | JBool bool
  | JNum int
  | JStr string
  | JArr "json list"
  | JObj "(string \<times> json) list"

text \<open>JavaScript truthiness of a parsed value.\<close>

fun truthy :: "json \<Rightarrow> bool" where
  "truthy JNull = False"
| "truthy (JBool b) = b"
| "truthy (JNum n) = (n \<noteq> 0)"
| "truthy (JStr s) = (s \<noteq> [])"
| "truthy (JArr xs) = True"
| "truthy (JObj kvs) = True"

text \<open>
  \<^verbatim>\<open>d.k\<close> for the keys the handlers probe (none of them is \<^verbatim>\<open>length\<close>, an index or
  a member of a prototype): only a plain object can answer, everything else gives
  \<^verbatim>\<open>undefined\<close>.
\<close>

fun property :: "json \<Rightarrow> string \<Rightarrow> json option" where
  "property (JObj kvs) k = map_of kvs k"
| "property d k = None"

definition truthy_prop :: "json \<Rightarrow> string \<Rightarrow> bool" where
  "truthy_prop d k = (case property d k of None \<Rightarrow> False | Some v \<Rightarrow> truthy v)"

text \<open>\<^verbatim>\<open>v || dflt\<close> on a property read.\<close>

definition or_else :: "json option \<Rightarrow> json \<Rightarrow> json" where
  "or_else r dflt = (case r of None \<Rightarrow> dflt | Some v \<Rightarrow> if truthy v then v else dflt)"

text \<open>\<^verbatim>\<open>Array.isArray\<close> and \<^verbatim>\<open>typeof v === 'object'\<close>.\<close>

fun isArray :: "json option \<Rightarrow> bool" where
  "isArray (Some (JArr xs)) = True"
| "isArray r = False"

fun typeof_object :: "json \<Rightarrow> bool" where
  "typeof_object JNull = True"
| "typeof_object (JArr xs) = True"
| "typeof_object (JObj kvs) = True"
| "typeof_object d = False"

fun elements :: "json option \<Rightarrow> json list" where
  "elements (Some (JArr xs)) = xs"
| "elements r = []"

section \<open>Decimal rendering of a counter\<close>

text \<open>Template literals print a non-negative integer in decimal.\<close>

definition digit_char :: "nat \<Rightarrow> char" where
  "digit_char d = ''0123456789'' ! d"

function string_of_nat :: "nat \<Rightarrow> string" where
  "string_of_nat n =
     (if n < 10 then [digit_char n]
      else string_of_nat (n div 10) @ [digit_char (n mod 10)])"
  by pat_completeness auto
termination
  by (relation "measure id") auto

declare string_of_nat.simps [simp del]

section \<open>GET /api/admin/meetings: locating the records in the webhook reply\<close>

text \<open>The four locals the handler fills in before it answers.\<close>

record extraction =
  meetings :: "json list"
  statistics :: json
  lastUpdated :: "json option"
  message :: json

definition initial :: extraction where
  "initial = \<lparr>meetings = [], statistics = JObj [], lastUpdated = Some JNull,
              message = JStr []\<rparr>"

text \<open>
  \<^verbatim>\<open>firstItem && (firstItem.requestId || firstItem.userName || firstItem.meetingPurpose)\<close>
\<close>

definition looks_like_meeting :: "json \<Rightarrow> bool" where
  "looks_like_meeting firstItem \<longleftrightarrow>
     truthy firstItem \<and>
     (truthy_prop firstItem ''requestId'' \<or> truthy_prop firstItem ''userName'' \<or>
      truthy_prop firstItem ''meetingPurpose'')"

text \<open>
  The last resort: walk the entries in order and take the first non-empty array whose
  first element looks like a meeting; stop there.
\<close>

fun scan_entries :: "(string \<times> json) list \<Rightarrow> json list" where
  "scan_entries [] = []"
| "scan_entries ((key, JArr (firstItem # others)) # rest) =
     (if looks_like_meeting firstItem then firstItem # others else scan_entries rest)"
| "scan_entries ((key, v) # rest) = scan_entries rest"

text \<open>
  \<^verbatim>\<open>if (actualData.json && typeof actualData.json === 'object') actualData = actualData.json\<close>
\<close>

definition unwrap_json :: "json \<Rightarrow> json" where
  "unwrap_json actualData =
     (case property actualData ''json'' of
        Some j \<Rightarrow> if truthy j \<and> typeof_object j then j else actualData
      | None \<Rightarrow> actualData)"

text \<open>The \<^verbatim>\<open>if / else if\<close> chain that follows the unwrapping, branch by branch.\<close>

definition locate_meetings :: "json \<Rightarrow> extraction" where
  "locate_meetings actualData =
     (if isArray (Some actualData) then initial\<lparr>meetings := elements (Some actualData)\<rparr>
      else if isArray (property actualData ''meetings'') then
        \<lparr>meetings = elements (property actualData ''meetings''),
         statistics = or_else (property actualData ''statistics'') (JObj []),
         lastUpdated = property actualData ''lastUpdated'',
         message = or_else (property actualData ''message'') (JStr [])\<rparr>
      else if isArray (property actualData ''data'') then
        initial\<lparr>meetings := elements (property actualData ''data'')\<rparr>
      else if isArray (property actualData ''items'') then
        initial\<lparr>meetings := elements (property actualData ''items'')\<rparr>
      else if isArray (property actualData ''response'') then
        initial\<lparr>meetings := elements (property actualData ''response'')\<rparr>
      else if isArray (property actualData ''result'') then
        initial\<lparr>meetings := elements (property actualData ''result'')\<rparr>
      else if property actualData ''message'' = Some (JStr ''Workflow was started'') then
        initial\<lparr>meetings := []\<rparr>
      else if truthy_prop actualData ''requestId'' \<or> truthy_prop actualData ''id'' then
        initial\<lparr>meetings := [actualData]\<rparr>
      else
        (case actualData of
           JObj kvs \<Rightarrow> initial\<lparr>meetings := scan_entries kvs\<rparr>
         | _ \<Rightarrow> initial))"

text \<open>
  The whole block guarded by \<^verbatim>\<open>if (response.data)\<close>: a direct array first, then any
  other value of type object, everything else leaves the locals untouched.
\<close>

definition normalize_response :: "json \<Rightarrow> extraction" where
  "normalize_response data =
     (if \<not> truthy data then initial
      else if isArray (Some data) then initial\<lparr>meetings := elements (Some data)\<rparr>
      else if typeof_object data then locate_meetings (unwrap_json data)
      else initial)"

text \<open>What \<^verbatim>\<open>res.json\<close> sends: the status code and the body.\<close>

record http_response =
  status :: nat
  body :: json

definition loaded_message :: "nat \<Rightarrow> json" where
  "loaded_message n = JStr (''Successfully loaded '' @ string_of_nat n @ '' meetings'')"

text \<open>A property whose value is \<^verbatim>\<open>undefined\<close> is left out of the serialised body.\<close>

definition success_body :: "extraction \<Rightarrow> json" where
  "success_body e =
     JObj ([(''success'', JBool True),
            (''meetings'', JArr (meetings e)),
            (''statistics'', statistics e)] @
           (case lastUpdated e of None \<Rightarrow> [] | Some v \<Rightarrow> [(''lastUpdated'', v)]) @
           [(''message'',
               if truthy (message e) then message e
               else loaded_message (length (meetings e))),
            (''count'', JNum (int (length (meetings e))))])"

text \<open>
  The handler. \<open>webhookUrl\<close> is \<^verbatim>\<open>process.env.ADMIN_MEETINGS_WEBHOOK\<close>; \<open>fetched\<close> is
  what \<^verbatim>\<open>await axios.get\<close> did: \<open>Inl\<close> the message of the error it threw, \<open>Inr\<close> the
  \<^verbatim>\<open>response.data\<close> it returned. The throw is the only one in the \<^verbatim>\<open>try\<close> block and the
  \<^verbatim>\<open>catch\<close> turns it into a reply.
\<close>

definition get_meetings :: "string option \<Rightarrow> string + json \<Rightarrow> http_response" where
  "get_meetings webhookUrl fetched =
     (if webhookUrl = None \<or> webhookUrl = Some [] then
        \<lparr>status = 200,
         body = JObj [(''success'', JBool True), (''meetings'', JArr []),
                      (''message'', JStr ''n8n webhook not configured'')]\<rparr>
      else
        (case fetched of
           Inr data \<Rightarrow> \<lparr>status = 200, body = success_body (normalize_response data)\<rparr>
         | Inl err \<Rightarrow>
             \<lparr>status = 200,
              body = JObj [(''success'', JBool False), (''meetings'', JArr []),
                           (''error'', JStr ''Failed to fetch meetings from n8n''),
                           (''details'', JStr err)]\<rparr>))"

section \<open>Strings as the sheet reader uses them\<close>

text \<open>
  Cells and headers are strings. The model works on the ASCII range: \<^verbatim>\<open>toLowerCase\<close>
  maps \<^verbatim>\<open>A\<close> to \<^verbatim>\<open>Z\<close> onto \<^verbatim>\<open>a\<close> to \<^verbatim>\<open>z\<close>, and \<^verbatim>\<open>trim\<close> removes blanks, tabs and line
  breaks at both ends.
\<close>

definition lower_char :: "char \<Rightarrow> char" where
  "lower_char c =
     (case map_of (zip ''ABCDEFGHIJKLMNOPQRSTUVWXYZ'' ''abcdefghijklmnopqrstuvwxyz'') c of
        Some l \<Rightarrow> l
      | None \<Rightarrow> c)"

definition toLowerCase :: "string \<Rightarrow> string" where
  "toLowerCase s = map lower_char s"

text \<open>\<^verbatim>\<open>s.replace(/_/g, '')\<close>\<close>

definition strip_underscores :: "string \<Rightarrow> string" where
  "strip_underscores s = filter (\<lambda>c. c \<noteq> CHR ''_'') s"

definition is_space :: "char \<Rightarrow> bool" where
  "is_space c \<longleftrightarrow> c \<in> set [CHR '' '', CHR 0x09, CHR 0x0A, CHR 0x0B, CHR 0x0C, CHR 0x0D]"

definition trim :: "string \<Rightarrow> string" where
  "trim s = rev (dropWhile is_space (rev (dropWhile is_space s)))"

section \<open>fetchMeetingRequests: from sheet rows to meeting objects\<close>

text \<open>
  A meeting object under construction: its properties in insertion order. Assigning
  to a property that exists keeps its place, a new one goes to the end, which is what
  \<open>AList.update\<close> does.
\<close>

type_synonym meeting = "(string \<times> string) list"

text \<open>
  The \<^verbatim>\<open>case\<close> labels of the \<^verbatim>\<open>switch (header)\<close>, each with the property its branch
  assigns. The comparison is \<^verbatim>\<open>===\<close> on the header as it stands in the sheet.
\<close>

definition header_table :: "(string \<times> string) list" where
  "header_table =
     [(''Request_ID'', ''requestId''), (''requestId'', ''requestId''),
      (''Timestamp'', ''timestamp''), (''timestamp'', ''timestamp''),
      (''User_Name'', ''userName''), (''userName'', ''userName''),
      (''User_Email'', ''userEmail''), (''userEmail'', ''userEmail''),
      (''User_Phone'', ''userPhone''), (''userPhone'', ''userPhone''),
      (''User_Company'', ''userCompany''), (''userCompany'', ''userCompany''),
      (''userPosition'', ''userPosition''),
      (''Meeting_Type'', ''meetingType''), (''meetingType'', ''meetingType''),
      (''Meeting_Purpose'', ''meetingPurpose''), (''meetingPurpose'', ''meetingPurpose''),
      (''Preferred_Date'', ''preferredDate''), (''preferredDate'', ''preferredDate''),
      (''Preferred_Time'', ''preferredTime''), (''preferredTime'', ''preferredTime''),
      (''Duration_Minutes'', ''estimatedDuration''),
      (''estimatedDuration'', ''estimatedDuration''),
      (''Meeting_Details'', ''meetingDescription''),
      (''meetingDescription'', ''meetingDescription''),
      (''Status'', ''status''), (''status'', ''status''),
      (''Admin_Response'', ''adminNotes''), (''adminNotes'', ''adminNotes''),
      (''adminEmail'', ''adminNotes''),
      (''Confirmed_Date'', ''confirmedDate''), (''confirmedDate'', ''confirmedDate''),
      (''Confirmed_Time'', ''confirmedTime''), (''confirmedTime'', ''confirmedTime''),
      (''Priority'', ''urgency''), (''urgency'', ''urgency''),
      (''Location'', ''location''), (''location'', ''location''),
      (''Meeting_Link'', ''meetingLink''), (''meetingLink'', ''meetingLink''),
      (''Created_Date'', ''createdDate''), (''createdDate'', ''createdDate''),
      (''Last_Updated'', ''lastUpdated''), (''lastUpdated'', ''lastUpdated''),
      (''additionalNotes'', ''additionalNotes''),
      (''attachments'', ''attachments''),
      (''proposedStartTime'', ''proposedStartTime''),
      (''proposedEndTime'', ''proposedEndTime'')]"

definition canonical_field :: "string \<Rightarrow> string option" where
  "canonical_field header = map_of header_table header"

text \<open>
  What the matching branch stores: \<^verbatim>\<open>value || 'Pending'\<close> in the status branch,
  \<^verbatim>\<open>value ? value.toLowerCase() : 'medium'\<close> in the urgency branch, the cell itself in
  every other one.
\<close>

definition stored_value :: "string \<Rightarrow> string \<Rightarrow> string" where
  "stored_value field v =
     (if field = ''status'' then (if v = [] then ''Pending'' else v)
      else if field = ''urgency'' then (if v = [] then ''medium'' else toLowerCase v)
      else v)"

text \<open>
  One pass of the \<^verbatim>\<open>switch\<close>; the \<^verbatim>\<open>default\<close> branch stores the cell under
  \<^verbatim>\<open>header.toLowerCase().replace(/_/g, '')\<close>.
\<close>

definition apply_header :: "meeting \<Rightarrow> string \<Rightarrow> string \<Rightarrow> meeting" where
  "apply_header m header v =
     (case canonical_field header of
        Some field \<Rightarrow> AList.update field (stored_value field v) m
      | None \<Rightarrow> AList.update (strip_underscores (toLowerCase header)) v m)"

text \<open>\<^verbatim>\<open>row[colIndex] || ''\<close>: a row shorter than the header row reads as empty cells.\<close>

definition cell :: "string list \<Rightarrow> nat \<Rightarrow> string" where
  "cell row colIndex = (if colIndex < length row then row ! colIndex else [])"

text \<open>\<^verbatim>\<open>headers.forEach((header, colIndex) => ...)\<close>\<close>

fun map_columns :: "meeting \<Rightarrow> string list \<Rightarrow> nat \<Rightarrow> string list \<Rightarrow> meeting" where
  "map_columns m [] colIndex row = m"
| "map_columns m (header # headers) colIndex row =
     map_columns (apply_header m header (cell row colIndex)) headers (Suc colIndex) row"

text \<open>\<^verbatim>\<open>meeting.k || dflt\<close> on a string property.\<close>

definition field_or :: "meeting \<Rightarrow> string \<Rightarrow> string \<Rightarrow> string" where
  "field_or m k dflt = (case map_of m k of None \<Rightarrow> dflt | Some v \<Rightarrow> if v = [] then dflt else v)"

text \<open>\<^verbatim>\<open>!obj.k\<close> on a string property: it is missing or empty.\<close>

definition blank :: "(string \<times> string) list \<Rightarrow> string \<Rightarrow> bool" where
  "blank obj k \<longleftrightarrow> map_of obj k = None \<or> map_of obj k = Some []"

text \<open>
  The three assignments after the column loop. \<open>index\<close> is the position of the row
  among the data rows, \<open>now\<close> what \<^verbatim>\<open>new Date().toISOString()\<close> returns at that row.
\<close>

definition apply_defaults :: "string \<Rightarrow> nat \<Rightarrow> meeting \<Rightarrow> meeting" where
  "apply_defaults now index m =
     (let m1 = AList.update ''requestId''
                 (field_or m ''requestId'' (''sheet_'' @ string_of_nat (index + 1))) m;
          m2 = AList.update ''status'' (field_or m1 ''status'' ''Pending'') m1
      in AList.update ''timestamp''
           (field_or m2 ''timestamp'' (field_or m2 ''createdDate'' now)) m2)"

definition decode_row :: "(nat \<Rightarrow> string) \<Rightarrow> string list \<Rightarrow> nat \<Rightarrow> string list \<Rightarrow> meeting" where
  "decode_row clock headers index row =
     apply_defaults (clock index) index (map_columns [] headers 0 row)"

text \<open>\<^verbatim>\<open>meeting.k && meeting.k.trim() !== ''\<close>\<close>

definition has_text :: "meeting \<Rightarrow> string \<Rightarrow> bool" where
  "has_text m k = (case map_of m k of None \<Rightarrow> False | Some v \<Rightarrow> v \<noteq> [] \<and> trim v \<noteq> [])"

definition isValid :: "meeting \<Rightarrow> bool" where
  "isValid m \<longleftrightarrow> has_text m ''userName'' \<and> has_text m ''userEmail'' \<and> has_text m ''meetingPurpose''"

text \<open>
  From \<^verbatim>\<open>response.data.values\<close> to the list returned: nothing for an empty sheet, else
  the first row is the header row, each further row is mapped and the invalid ones
  are filtered out.
\<close>

definition decode_rows :: "(nat \<Rightarrow> string) \<Rightarrow> string list list \<Rightarrow> meeting list" where
  "decode_rows clock rows =
     (case rows of
        [] \<Rightarrow> []
      | headers # dataRows \<Rightarrow>
          filter isValid
            (map (\<lambda>(index, row). decode_row clock headers index row) (enumerate 0 dataRows)))"

section \<open>POST /api/meeting/request: the identifier in the reply\<close>

text \<open>
  \<^verbatim>\<open>`${Date.now()}_${Math.random().toString(36).substring(7)}`\<close>, with the clock reading
  and the random suffix as inputs.
\<close>

definition new_request_id :: "nat \<Rightarrow> string \<Rightarrow> string" where
  "new_request_id millis rnd = string_of_nat millis @ ''_'' @ rnd"

section \<open>generateStatistics\<close>

text \<open>
  The \<^verbatim>\<open>stats\<close> object: its own properties in order. A property holds a counter or a
  nested object of counters; \<^verbatim>\<open>++\<close> on a nested object would leave \<^verbatim>\<open>NaN\<close> there.
\<close>

datatype slot = Count nat | Group "(string \<times> nat) list" | NaN

type_synonym stats = "(string \<times> slot) list"

fun increment :: "slot \<Rightarrow> slot" where
  "increment (Count n) = Count (n + 1)"
| "increment (Group g) = NaN"
| "increment NaN = NaN"

definition initial_stats :: "nat \<Rightarrow> stats" where
  "initial_stats n =
     [(''total'', Count n), (''pending'', Count 0), (''approved'', Count 0),
      (''rejected'', Count 0), (''rescheduled'', Count 0),
      (''byPriority'', Group [(''high'', 0), (''medium'', 0), (''low'', 0)]),
      (''byMeetingType'', Group [(''online'', 0), (''offline'', 0), (''hybrid'', 0)])]"

text \<open>\<^verbatim>\<open>if (stats.hasOwnProperty(k)) stats[k]++\<close>\<close>

definition bump :: "string \<Rightarrow> stats \<Rightarrow> stats" where
  "bump k st = (if k \<in> set (map fst st) then AList.map_entry k increment st else st)"

text \<open>\<^verbatim>\<open>if (stats.g.hasOwnProperty(k)) stats.g[k]++\<close>\<close>

definition bump_in :: "string \<Rightarrow> string \<Rightarrow> stats \<Rightarrow> stats" where
  "bump_in g k st =
     (case map_of st g of
        Some (Group counters) \<Rightarrow>
          if k \<in> set (map fst counters)
          then AList.update g (Group (AList.map_entry k Suc counters)) st
          else st
      | _ \<Rightarrow> st)"

text \<open>\<^verbatim>\<open>meeting.k ? meeting.k.toLowerCase() : dflt\<close>\<close>

definition lowered_or :: "meeting \<Rightarrow> string \<Rightarrow> string \<Rightarrow> string" where
  "lowered_or m k dflt =
     (case map_of m k of None \<Rightarrow> dflt | Some v \<Rightarrow> if v = [] then dflt else toLowerCase v)"

definition count_meeting :: "stats \<Rightarrow> meeting \<Rightarrow> stats" where
  "count_meeting st m =
     bump_in ''byMeetingType'' (lowered_or m ''meetingType'' ''online'')
       (bump_in ''byPriority'' (lowered_or m ''urgency'' ''medium'')
          (bump (lowered_or m ''status'' ''pending'') st))"

definition generateStatistics :: "meeting list \<Rightarrow> stats" where
  "generateStatistics ms = foldl count_meeting (initial_stats (length ms)) ms"

section \<open>updateDashboardStats\<close>





section \<open>Admin actions: confirmAction in the page, then POST /api/admin/meeting/action\<close>

definition validActions :: "string list" where
  "validActions = [''approve'', ''reject'', ''reschedule'']"

text \<open>
  The reply of the server together with the bodies it posted to
  \<^verbatim>\<open>ADMIN_ACTION_WEBHOOK\<close> on the way.
\<close>

record action_result =
  reply :: http_response
  posted :: "json list"

definition error_reply :: "nat \<Rightarrow> string \<Rightarrow> http_response" where
  "error_reply code msg = \<lparr>status = code, body = JObj [(''error'', JStr msg)]\<rparr>"

text \<open>
  The server handler. \<open>posting\<close> is what \<^verbatim>\<open>await axios.post\<close> does if it is reached:
  \<open>Inl\<close> the error it throws, \<open>Inr\<close> the status it returns. \<^verbatim>\<open>validActions.includes\<close>
  compares with \<^verbatim>\<open>===\<close>, so only the three strings pass.
\<close>

definition post_action ::
  "json \<Rightarrow> string \<Rightarrow> string option \<Rightarrow> string + nat \<Rightarrow> json \<Rightarrow> action_result" where
  "post_action adminEmail stamp webhookUrl posting reqBody =
     (if \<not> truthy_prop reqBody ''requestId'' \<or> \<not> truthy_prop reqBody ''action'' then
        \<lparr>reply = error_reply 400 ''Request ID and action are required'', posted = []\<rparr>
      else
        (case List.find (\<lambda>a. property reqBody ''action'' = Some (JStr a)) validActions of
           None \<Rightarrow>
             \<lparr>reply = error_reply 400 ''Invalid action. Must be: approve, reject, or reschedule'',
              posted = []\<rparr>
         | Some action \<Rightarrow>
             (let actionData = JObj
                    [(''requestId'', or_else (property reqBody ''requestId'') JNull),
                     (''action'', JStr action),
                     (''adminEmail'', adminEmail),
                     (''adminNotes'', or_else (property reqBody ''adminNotes'') (JStr [])),
                     (''newDate'', or_else (property reqBody ''newDate'') JNull),
                     (''newTime'', or_else (property reqBody ''newTime'') JNull),
                     (''newDuration'', or_else (property reqBody ''newDuration'') JNull),
                     (''newLocation'', or_else (property reqBody ''newLocation'') JNull),
                     (''newMeetingType'', or_else (property reqBody ''newMeetingType'') JNull),
                     (''timestamp'', JStr stamp)]
              in if webhookUrl = None \<or> webhookUrl = Some [] then
                   \<lparr>reply = error_reply 500 ''Failed to process admin action. Please try again.'',
                    posted = []\<rparr>
                 else
                   (case posting of
                      Inl err \<Rightarrow>
                        \<lparr>reply = error_reply 500 ''Failed to process admin action. Please try again.'',
                         posted = [actionData]\<rparr>
                    | Inr code \<Rightarrow>
                        \<lparr>reply = \<lparr>status = 200,
                                   body = JObj [(''success'', JBool True),
                                                (''message'', JStr (''Meeting '' @ action @ '' successfully'')),
                                                (''action'', JStr action),
                                                (''requestId'', or_else (property reqBody ''requestId'') JNull)]\<rparr>,
                         posted = [actionData]\<rparr>))))"

text \<open>
  The page side. The form entries are copied, trimmed, into \<^verbatim>\<open>actionData\<close>; the
  reschedule checks come next; only then is the server called with the JSON of
  \<^verbatim>\<open>actionData\<close>. \<open>parse\<close> stands for \<^verbatim>\<open>new Date(s)\<close> read as milliseconds, \<open>None\<close> for an
  invalid date.
\<close>

definition collect_form :: "(string \<times> string) list \<Rightarrow> (string \<times> string) list" where
  "collect_form entries = foldl (\<lambda>actionData (key, v). AList.update key (trim v) actionData) [] entries"

definition to_body :: "(string \<times> string) list \<Rightarrow> json" where
  "to_body actionData = JObj (map (\<lambda>(k, v). (k, JStr v)) actionData)"

datatype submit_outcome = Alerted string | Replied action_result

definition confirmAction ::
  "(string \<Rightarrow> int option) \<Rightarrow> int \<Rightarrow> (json \<Rightarrow> action_result) \<Rightarrow> (string \<times> string) list
     \<Rightarrow> submit_outcome" where
  "confirmAction parse now server entries =
     (let actionData = collect_form entries
      in if map_of actionData ''action'' = Some ''reschedule'' then
           (if blank actionData ''newDate'' \<or> blank actionData ''newTime'' then
              Alerted ''Please provide new date and time for rescheduling.''
            else
              (case parse (field_or actionData ''newDate'' [] @ ''T'' @
                           field_or actionData ''newTime'' []) of
                 Some newDate \<Rightarrow>
                   if newDate \<le> now then Alerted ''Please select a future date and time.''
                   else Replied (server (to_body actionData))
               | None \<Rightarrow> Replied (server (to_body actionData))))
         else Replied (server (to_body actionData)))"

text \<open>The two layers together, as one submission of the action form.\<close>

definition submitAction ::
  "(string \<Rightarrow> int option) \<Rightarrow> int \<Rightarrow> json \<Rightarrow> string \<Rightarrow> string option \<Rightarrow> string + nat
     \<Rightarrow> (string \<times> string) list \<Rightarrow> submit_outcome" where
  "submitAction parse now adminEmail stamp webhookUrl posting entries =
     confirmAction parse now (post_action adminEmail stamp webhookUrl posting) entries"

fun webhook_posts :: "submit_outcome \<Rightarrow> json list" where
  "webhook_posts (Alerted msg) = []"
| "webhook_posts (Replied r) = posted r"

fun accepted :: "submit_outcome \<Rightarrow> bool" where
  "accepted (Alerted msg) = False"
| "accepted (Replied r) = (status (reply r) = 200)"

section \<open>The specification's notions, for comparison with the code\<close>

text \<open>
  The resolution order of the normalizer as the specification words it: a bare array;
  else, for an object, a nested \<^verbatim>\<open>json\<close> object is entered first; then the first of
  \<^verbatim>\<open>meetings\<close>, \<^verbatim>\<open>data\<close>, \<^verbatim>\<open>items\<close>, \<^verbatim>\<open>response\<close>, \<^verbatim>\<open>result\<close> that holds an array.
\<close>

definition priority_props :: "string list" where
  "priority_props = [''meetings'', ''data'', ''items'', ''response'', ''result'']"

definition first_array_property :: "json \<Rightarrow> json list option" where
  "first_array_property d =
     (case List.find (\<lambda>k. isArray (property d k)) priority_props of
        None \<Rightarrow> None
      | Some k \<Rightarrow> Some (elements (property d k)))"

definition nested_json :: "json \<Rightarrow> json option" where
  "nested_json d =
     (case property d ''json'' of
        Some j \<Rightarrow> if truthy j \<and> typeof_object j then Some j else None
      | None \<Rightarrow> None)"

definition spec_records :: "json \<Rightarrow> json list option" where
  "spec_records payload =
     (case payload of
        JArr xs \<Rightarrow> Some xs
      | JObj kvs \<Rightarrow>
          (case nested_json payload of
             Some (JArr ys) \<Rightarrow> Some ys
           | Some inner \<Rightarrow> first_array_property inner
           | None \<Rightarrow> first_array_property payload)
      | _ \<Rightarrow> None)"

text \<open>
  A payload in which none of the specification's structures is found: no record list
  by the order above, no single record (\<^verbatim>\<open>requestId\<close> or \<^verbatim>\<open>id\<close>), and no property
  holding an array whose first element looks like a meeting.
\<close>

definition single_record :: "json \<Rightarrow> bool" where
  "single_record d \<longleftrightarrow> truthy_prop d ''requestId'' \<or> truthy_prop d ''id''"

fun meeting_array :: "json \<Rightarrow> bool" where
  "meeting_array (JArr (firstItem # others)) = looks_like_meeting firstItem"
| "meeting_array v = False"

fun auto_detected :: "json \<Rightarrow> bool" where
  "auto_detected (JObj kvs) = list_ex (\<lambda>(key, v). meeting_array v) kvs"
| "auto_detected d = False"

definition no_structure :: "json \<Rightarrow> bool" where
  "no_structure payload \<longleftrightarrow>
     spec_records payload = None \<and>
     (let d = (case nested_json payload of Some j \<Rightarrow> j | None \<Rightarrow> payload)
      in \<not> single_record d \<and> \<not> auto_detected d)"

text \<open>An error indicator in a reply: \<^verbatim>\<open>success\<close> is false, or an \<^verbatim>\<open>error\<close> text is there.\<close>

definition error_indicator :: "http_response \<Rightarrow> bool" where
  "error_indicator r \<longleftrightarrow>
     property (body r) ''success'' = Some (JBool False) \<or>
     (case property (body r) ''error'' of None \<Rightarrow> False | Some e \<Rightarrow> True)"

text \<open>Two header spellings that differ only in letter case and in underscores.\<close>

definition same_modulo_case_and_separators :: "string \<Rightarrow> string \<Rightarrow> bool" where
  "same_modulo_case_and_separators h h' \<longleftrightarrow>
     strip_underscores (toLowerCase h) = strip_underscores (toLowerCase h')"

text \<open>The identifiers of a record list, in order.\<close>

definition request_ids :: "meeting list \<Rightarrow> string option list" where
  "request_ids ms = map (\<lambda>m. map_of m ''requestId'') ms"

section \<open>The normalizer follows the priority order\<close>

lemma unwrap_json_nested:
  "unwrap_json d = (case nested_json d of Some j \<Rightarrow> j | None \<Rightarrow> d)"
  by (simp add: unwrap_json_def nested_json_def split: option.splits)

lemma locate_first_array:
  "first_array_property d = Some xs \<Longrightarrow> \<not> isArray (Some d) \<Longrightarrow>
   meetings (locate_meetings d) = xs"
  by (auto simp: first_array_property_def priority_props_def locate_meetings_def initial_def
           split: if_splits)

lemma normalize_finds_spec_records:
  assumes found: "spec_records payload = Some xs"
  shows "meetings (normalize_response payload) = xs"
proof (cases payload)
  case (JArr ys)
  with found show ?thesis
    by (simp add: spec_records_def normalize_response_def initial_def)
next
  case (JObj kvs)
  show ?thesis
  proof (cases "nested_json payload")
    case None
    with JObj found have "first_array_property payload = Some xs"
      by (simp add: spec_records_def)
    with JObj None show ?thesis
      by (simp add: normalize_response_def unwrap_json_nested locate_first_array)
  next
    case (Some inner)
    show ?thesis
    proof (cases "isArray (Some inner)")
      case True
      then obtain ys where "inner = JArr ys"
        by (cases inner) auto
      with JObj Some found show ?thesis
        by (simp add: spec_records_def normalize_response_def unwrap_json_nested
                      locate_meetings_def initial_def)
    next
      case False
      with JObj Some found have "first_array_property inner = Some xs"
        by (cases inner) (simp_all add: spec_records_def)
      with JObj Some False show ?thesis
        by (simp add: normalize_response_def unwrap_json_nested locate_first_array)
    qed
  qed
qed (use found in \<open>simp_all add: spec_records_def\<close>)

text \<open>
  C1. Whenever the priority order of the specification (bare array, nested json
  unwrap, then meetings, data, items, response, result) finds a record list in the
  payload, the handler ends with exactly that list in \<^verbatim>\<open>meetings\<close>, elements and order
  unchanged, and that list is what the reply carries.
\<close>

theorem normalizer_priority_order:
  assumes found: "spec_records payload = Some xs"
  shows "meetings (normalize_response payload) = xs
         \<and> property (body (get_meetings (Some (c # cs)) (Inr payload))) ''meetings''
             = Some (JArr xs)"
  using normalize_finds_spec_records [OF found]
  by (simp add: get_meetings_def success_body_def)

theorem normalizer_priority_order_witness:
  "spec_records (JObj [(''data'', JArr [JNum 1, JNum 2]), (''result'', JArr [JNum 3])])
     = Some [JNum 1, JNum 2]
   \<and> meetings (normalize_response
        (JObj [(''data'', JArr [JNum 1, JNum 2]), (''result'', JArr [JNum 3])]))
     = [JNum 1, JNum 2]"
proof -
  have h: "spec_records (JObj [(''data'', JArr [JNum 1, JNum 2]), (''result'', JArr [JNum 3])])
             = Some [JNum 1, JNum 2]"
    by (simp add: spec_records_def nested_json_def first_array_property_def priority_props_def)
  show ?thesis
    using h normalizer_priority_order [OF h, of "CHR ''u''" "[]"] by simp
qed

section \<open>Unwrapping a nested json object\<close>

text \<open>
  C10. The payload \<^verbatim>\<open>{json: {meetings: xs}}\<close> yields \<open>xs\<close>, the unwrapped value
  \<^verbatim>\<open>{meetings: xs}\<close> yields \<open>xs\<close> as well, and the two runs fill all four locals alike.
  The same holds for any inner object that has no nested json object of its own.
\<close>

theorem json_unwrap_one_level:
  "meetings (normalize_response (JObj [(''json'', JObj [(''meetings'', JArr xs)])])) = xs
   \<and> meetings (normalize_response (JObj [(''meetings'', JArr xs)])) = xs
   \<and> normalize_response (JObj [(''json'', JObj [(''meetings'', JArr xs)])])
       = normalize_response (JObj [(''meetings'', JArr xs)])
   \<and> (nested_json (JObj kvs) = None \<longrightarrow>
        normalize_response (JObj [(''json'', JObj kvs)]) = normalize_response (JObj kvs))"
  by (simp add: normalize_response_def unwrap_json_nested nested_json_def locate_meetings_def
                initial_def or_else_def split: option.splits)

theorem json_unwrap_one_level_witness:
  "nested_json (JObj [(''meetings'', JArr [JStr ''a'']), (''message'', JStr ''ok'')]) = None
   \<and> normalize_response
        (JObj [(''json'', JObj [(''meetings'', JArr [JStr ''a'']), (''message'', JStr ''ok'')])])
     = \<lparr>meetings = [JStr ''a''], statistics = JObj [], lastUpdated = None,
        message = JStr ''ok''\<rparr>"
proof -
  have h: "nested_json (JObj [(''meetings'', JArr [JStr ''a'']), (''message'', JStr ''ok'')]) = None"
    by (simp add: nested_json_def)
  have "normalize_response (JObj [(''meetings'', JArr [JStr ''a'']), (''message'', JStr ''ok'')])
          = \<lparr>meetings = [JStr ''a''], statistics = JObj [], lastUpdated = None,
             message = JStr ''ok''\<rparr>"
    by (simp add: normalize_response_def unwrap_json_def locate_meetings_def or_else_def)
  with h show ?thesis
    using json_unwrap_one_level
            [of "[JStr ''a'']" "[(''meetings'', JArr [JStr ''a'']), (''message'', JStr ''ok'')]"]
    by simp
qed

section \<open>Replies of the list endpoint when nothing is found or the call fails\<close>

lemma scan_entries_none:
  "\<not> list_ex (\<lambda>(key, v). meeting_array v) kvs \<Longrightarrow> scan_entries kvs = []"
  by (induction kvs rule: scan_entries.induct) auto

lemma first_array_property_None:
  "first_array_property d = None \<Longrightarrow>
   \<not> isArray (property d ''meetings'') \<and> \<not> isArray (property d ''data'') \<and>
   \<not> isArray (property d ''items'') \<and> \<not> isArray (property d ''response'') \<and>
   \<not> isArray (property d ''result'')"
  by (auto simp: first_array_property_def priority_props_def split: if_splits)

lemma locate_nothing:
  assumes "first_array_property d = None" "\<not> isArray (Some d)"
    "\<not> single_record d" "\<not> auto_detected d"
  shows "locate_meetings d = initial"
proof -
  note no = first_array_property_None [OF assms(1)]
  show ?thesis
  proof (cases d)
    case (JObj kvs)
    with assms(4) have "scan_entries kvs = []"
      by (simp add: scan_entries_none)
    with JObj no assms(3) show ?thesis
      by (simp add: locate_meetings_def single_record_def initial_def)
  qed (use no assms in \<open>simp_all add: locate_meetings_def single_record_def initial_def\<close>)
qed

lemma no_structure_initial:
  assumes "no_structure payload"
  shows "normalize_response payload = initial"
proof (cases payload)
  case (JObj kvs)
  show ?thesis
  proof (cases "nested_json payload")
    case None
    with JObj assms show ?thesis
      by (simp add: no_structure_def spec_records_def normalize_response_def
                    unwrap_json_nested locate_nothing)
  next
    case (Some inner)
    with JObj assms have "first_array_property inner = None \<and> \<not> isArray (Some inner)"
      by (cases inner) (simp_all add: no_structure_def spec_records_def)
    with JObj Some assms show ?thesis
      by (simp add: no_structure_def normalize_response_def unwrap_json_nested locate_nothing)
  qed
qed (use assms in \<open>simp_all add: no_structure_def spec_records_def normalize_response_def\<close>)

lemma string_of_nat_0: "string_of_nat 0 = ''0''"
  by (simp add: string_of_nat.simps digit_char_def)

text \<open>
  C2, as the code has it. With the webhook configured, a payload in which no
  structure is found is answered with status 200, \<^verbatim>\<open>success: true\<close>, an empty list and
  the message of a successful load of 0 meetings; a failed call is answered with
  status 200, \<^verbatim>\<open>success: false\<close>, an empty list and the error text with its details;
  and no input at all makes the endpoint answer with another status than 200.
\<close>

theorem list_endpoint_soft_failure:
  "(no_structure payload \<longrightarrow>
      get_meetings (Some (c # cs)) (Inr payload) =
        \<lparr>status = 200,
         body = JObj [(''success'', JBool True), (''meetings'', JArr []),
                      (''statistics'', JObj []), (''lastUpdated'', JNull),
                      (''message'', JStr ''Successfully loaded 0 meetings''),
                      (''count'', JNum 0)]\<rparr>)
   \<and> get_meetings (Some (c # cs)) (Inl err) =
        \<lparr>status = 200,
         body = JObj [(''success'', JBool False), (''meetings'', JArr []),
                      (''error'', JStr ''Failed to fetch meetings from n8n''),
                      (''details'', JStr err)]\<rparr>
   \<and> status (get_meetings webhookUrl fetched) = 200"
proof (intro conjI impI)
  assume "no_structure payload"
  then have "normalize_response payload = initial"
    by (rule no_structure_initial)
  then show "get_meetings (Some (c # cs)) (Inr payload) =
        \<lparr>status = 200,
         body = JObj [(''success'', JBool True), (''meetings'', JArr []),
                      (''statistics'', JObj []), (''lastUpdated'', JNull),
                      (''message'', JStr ''Successfully loaded 0 meetings''),
                      (''count'', JNum 0)]\<rparr>"
    by (simp add: get_meetings_def success_body_def initial_def loaded_message_def
                  string_of_nat_0)
next
  show "get_meetings (Some (c # cs)) (Inl err) =
        \<lparr>status = 200,
         body = JObj [(''success'', JBool False), (''meetings'', JArr []),
                      (''error'', JStr ''Failed to fetch meetings from n8n''),
                      (''details'', JStr err)]\<rparr>"
    by (simp add: get_meetings_def)
next
  show "status (get_meetings webhookUrl fetched) = 200"
    by (simp add: get_meetings_def split: sum.splits)
qed

theorem list_endpoint_soft_failure_witness:
  "no_structure (JObj [(''note'', JStr ''hello''), (''rows'', JArr [JNum 7])])
   \<and> property (body (get_meetings (Some ''http://n8n/hook'')
                 (Inr (JObj [(''note'', JStr ''hello''), (''rows'', JArr [JNum 7])]))))
        ''meetings'' = Some (JArr [])"
proof -
  have h: "no_structure (JObj [(''note'', JStr ''hello''), (''rows'', JArr [JNum 7])])"
    by (simp add: no_structure_def spec_records_def nested_json_def first_array_property_def
                  priority_props_def single_record_def truthy_prop_def looks_like_meeting_def)
  show ?thesis
    using h list_endpoint_soft_failure
              [of "JObj [(''note'', JStr ''hello''), (''rows'', JArr [JNum 7])]"
                  "CHR ''h''" "''ttp://n8n/hook''"]
    by simp
qed

text \<open>
  The reply to \<^verbatim>\<open>{message: "Workflow was started"}\<close> carries no error indicator: it
  is, field by field, the reply to a well-formed empty list.
\<close>

theorem mismatch_reply_has_no_indicator:
  "no_structure (JObj [(''message'', JStr ''Workflow was started'')])
   \<and> \<not> error_indicator
         (get_meetings (Some ''http://n8n/hook'')
            (Inr (JObj [(''message'', JStr ''Workflow was started'')])))
   \<and> get_meetings (Some ''http://n8n/hook'')
         (Inr (JObj [(''message'', JStr ''Workflow was started'')]))
       = get_meetings (Some ''http://n8n/hook'') (Inr (JArr []))"
  by (simp add: no_structure_def spec_records_def nested_json_def first_array_property_def
                priority_props_def single_record_def truthy_prop_def error_indicator_def
                get_meetings_def normalize_response_def unwrap_json_def locate_meetings_def
                initial_def success_body_def)


section \<open>Decimal rendering is injective\<close>

lemma digit_char_inj:
  assumes "a < 10" "b < 10" "digit_char a = digit_char b"
  shows "a = b"
proof -
  have d: "distinct ''0123456789''" by simp
  have "a < length ''0123456789''" "b < length ''0123456789''"
    using assms by simp_all
  with d assms(3) show ?thesis
    unfolding digit_char_def by (simp only: nth_eq_iff_index_eq)
qed

lemma digit_char_not_underscore: "d < 10 \<Longrightarrow> digit_char d \<noteq> CHR ''_''"
proof -
  assume "d < 10"
  then have "digit_char d \<in> set ''0123456789''"
    unfolding digit_char_def by (intro nth_mem) simp
  then show ?thesis by auto
qed

lemma string_of_nat_nonempty: "string_of_nat n \<noteq> []"
  by (subst string_of_nat.simps) simp

lemma string_of_nat_small: "n < 10 \<Longrightarrow> string_of_nat n = [digit_char n]"
  by (subst string_of_nat.simps) simp

lemma string_of_nat_large:
  "\<not> n < 10 \<Longrightarrow> string_of_nat n = string_of_nat (n div 10) @ [digit_char (n mod 10)]"
  by (subst string_of_nat.simps) simp

lemma string_of_nat_inj: "string_of_nat m = string_of_nat n \<Longrightarrow> m = n"
proof (induction m arbitrary: n rule: string_of_nat.induct)
  case (1 m)
  show ?case
  proof (cases "m < 10")
    case small_m: True
    show ?thesis
    proof (cases "n < 10")
      case True
      with small_m "1.prems" show ?thesis
        by (simp add: string_of_nat_small digit_char_inj)
    next
      case False
      with small_m "1.prems" show ?thesis
        using string_of_nat_nonempty [of "n div 10"]
        by (simp add: string_of_nat_small string_of_nat_large)
    qed
  next
    case large_m: False
    show ?thesis
    proof (cases "n < 10")
      case True
      with large_m "1.prems" show ?thesis
        using string_of_nat_nonempty [of "m div 10"]
        by (simp add: string_of_nat_small string_of_nat_large)
    next
      case False
      with large_m "1.prems"
      have eq: "string_of_nat (m div 10) = string_of_nat (n div 10)"
        and dg: "digit_char (m mod 10) = digit_char (n mod 10)"
        by (simp_all add: string_of_nat_large)
      from "1.IH" [OF large_m eq] have "m div 10 = n div 10" .
      moreover from dg have "m mod 10 = n mod 10"
        by (intro digit_char_inj) simp_all
      ultimately show ?thesis
        by (metis div_mult_mod_eq)
    qed
  qed
qed

lemma string_of_nat_no_underscore: "CHR ''_'' \<notin> set (string_of_nat n)"
proof (induction n rule: string_of_nat.induct)
  case (1 n)
  show ?case
  proof (cases "n < 10")
    case True
    then show ?thesis
      using digit_char_not_underscore [of n] by (simp add: string_of_nat_small)
  next
    case False
    with "1.IH" show ?thesis
      using digit_char_not_underscore [of "n mod 10"] by (simp add: string_of_nat_large)
  qed
qed

lemma split_at_first_underscore:
  assumes "xs @ CHR ''_'' # s = ys @ CHR ''_'' # t"
    "CHR ''_'' \<notin> set xs" "CHR ''_'' \<notin> set ys"
  shows "xs = ys \<and> s = t"
proof -
  have "takeWhile (\<lambda>c. c \<noteq> CHR ''_'') (xs @ CHR ''_'' # s) = xs"
    using assms(2) by (subst takeWhile_append2) auto
  moreover have "takeWhile (\<lambda>c. c \<noteq> CHR ''_'') (ys @ CHR ''_'' # t) = ys"
    using assms(3) by (subst takeWhile_append2) auto
  ultimately have "xs = ys" using assms(1) by simp
  with assms(1) show ?thesis by simp
qed

section \<open>Facts about one decoded row\<close>

lemma field_or_update:
  "field_or (AList.update k v m) k' d =
     (if k = k' then (if v = [] then d else v) else field_or m k' d)"
  by (simp add: field_or_def update_conv')

lemma map_of_apply_defaults_requestId:
  "map_of (apply_defaults now index m) ''requestId'' =
     Some (field_or m ''requestId'' (''sheet_'' @ string_of_nat (index + 1)))"
  by (simp add: apply_defaults_def Let_def update_conv')

lemma map_of_apply_defaults_status:
  "map_of (apply_defaults now index m) ''status'' = Some (field_or m ''status'' ''Pending'')"
  by (simp add: apply_defaults_def Let_def update_conv' field_or_update)

lemma map_of_apply_defaults_timestamp:
  "map_of (apply_defaults now index m) ''timestamp'' =
     Some (field_or m ''timestamp'' (field_or m ''createdDate'' now))"
  by (simp add: apply_defaults_def Let_def update_conv' field_or_update)

lemma decoded_rows_nth:
  "i < length dataRows \<Longrightarrow>
   map (\<lambda>(index, row). decode_row clock headers index row) (enumerate n dataRows) ! i
     = decode_row clock headers (n + i) (dataRows ! i)"
  by (simp add: nth_enumerate_eq)

section \<open>The validity filter of the row decoder\<close>

lemma has_text_iff:
  "has_text m k \<longleftrightarrow> (\<exists>v. map_of m k = Some v \<and> trim v \<noteq> [])"
  by (auto simp: has_text_def trim_def split: option.splits)

lemma decode_rows_Cons:
  "decode_rows clock (headers # dataRows) =
     filter isValid (map (\<lambda>(index, row). decode_row clock headers index row)
                         (enumerate 0 dataRows))"
  by (simp add: decode_rows_def)

lemma decode_rows_all_valid: "m \<in> set (decode_rows clock rows) \<Longrightarrow> isValid m"
  by (cases rows) (auto simp: decode_rows_def)

text \<open>
  C4. Every record the row decoder returns has a user name, a user email and a
  meeting purpose that are non-empty after trimming. The returned list is a
  subsequence of the rows as decoded, so the order of the sheet is kept, and the
  record of a data row is in it exactly when that record is valid. A row whose
  \<^verbatim>\<open>User_Name\<close> cell is empty is not returned although its other cells are filled.
\<close>

theorem row_decoder_validity:
  "(\<forall>m \<in> set (decode_rows clock rows).
      (\<exists>n. map_of m ''userName'' = Some n \<and> trim n \<noteq> []) \<and>
      (\<exists>e. map_of m ''userEmail'' = Some e \<and> trim e \<noteq> []) \<and>
      (\<exists>p. map_of m ''meetingPurpose'' = Some p \<and> trim p \<noteq> []))
   \<and> subseq (decode_rows clock (headers # dataRows))
        (map (\<lambda>(index, row). decode_row clock headers index row) (enumerate 0 dataRows))
   \<and> (\<forall>i < length dataRows.
        (decode_row clock headers i (dataRows ! i) \<in> set (decode_rows clock (headers # dataRows)))
          = isValid (decode_row clock headers i (dataRows ! i)))
   \<and> decode_rows clock
        [[''User_Name'', ''User_Email'', ''Meeting_Purpose''], ['''', ''ann@x.com'', ''Demo'']] = []"
proof (intro conjI ballI allI impI)
  fix m assume "m \<in> set (decode_rows clock rows)"
  then have "isValid m" by (rule decode_rows_all_valid)
  then show "\<exists>n. map_of m ''userName'' = Some n \<and> trim n \<noteq> []"
    and "\<exists>e. map_of m ''userEmail'' = Some e \<and> trim e \<noteq> []"
    and "\<exists>p. map_of m ''meetingPurpose'' = Some p \<and> trim p \<noteq> []"
    by (simp_all add: isValid_def has_text_iff)
next
  show "subseq (decode_rows clock (headers # dataRows))
        (map (\<lambda>(index, row). decode_row clock headers index row) (enumerate 0 dataRows))"
    by (simp add: decode_rows_Cons)
next
  fix i assume i: "i < length dataRows"
  let ?all = "map (\<lambda>(index, row). decode_row clock headers index row) (enumerate 0 dataRows)"
  have "?all ! i = decode_row clock headers i (dataRows ! i)"
    using i by (simp add: nth_enumerate_eq)
  moreover have "i < length ?all" using i by simp
  ultimately have "decode_row clock headers i (dataRows ! i) \<in> set ?all"
    by (metis nth_mem)
  then show "(decode_row clock headers i (dataRows ! i) \<in> set (decode_rows clock (headers # dataRows)))
          = isValid (decode_row clock headers i (dataRows ! i))"
    by (auto simp: decode_rows_Cons)
next
  show "decode_rows clock
        [[''User_Name'', ''User_Email'', ''Meeting_Purpose''], ['''', ''ann@x.com'', ''Demo'']] = []"
    by (simp add: decode_rows_def decode_row_def apply_defaults_def apply_header_def
                  canonical_field_def header_table_def stored_value_def cell_def field_or_def
                  isValid_def has_text_def)
qed

theorem row_decoder_validity_witness:
  "[(''userName'', ''Ann''), (''userEmail'', ''ann@x.com''), (''meetingPurpose'', ''Demo''),
    (''requestId'', ''sheet_2''), (''status'', ''Pending''), (''timestamp'', ''T1'')]
     \<in> set (decode_rows (\<lambda>i. ''T1'')
               [[''User_Name'', ''User_Email'', ''Meeting_Purpose''],
                ['' '', ''bob@x.com'', ''Call''],
                [''Ann'', ''ann@x.com'', ''Demo'']])
   \<and> trim ''Ann'' \<noteq> [] \<and> trim ''ann@x.com'' \<noteq> [] \<and> trim ''Demo'' \<noteq> []
   \<and> (1::nat) < length [['' '', ''bob@x.com'', ''Call''], [''Ann'', ''ann@x.com'', ''Demo'']]
   \<and> isValid (decode_row (\<lambda>i. ''T1'') [''User_Name'', ''User_Email'', ''Meeting_Purpose''] 1
                 ([['' '', ''bob@x.com'', ''Call''], [''Ann'', ''ann@x.com'', ''Demo'']] ! 1))"
proof -
  let ?clock = "\<lambda>i::nat. ''T1''"
  let ?headers = "[''User_Name'', ''User_Email'', ''Meeting_Purpose'']"
  let ?dataRows = "[['' '', ''bob@x.com'', ''Call''], [''Ann'', ''ann@x.com'', ''Demo'']]"
  let ?ann = "[(''userName'', ''Ann''), (''userEmail'', ''ann@x.com''),
               (''meetingPurpose'', ''Demo''), (''requestId'', ''sheet_2''),
               (''status'', ''Pending''), (''timestamp'', ''T1'')]"
  have row: "decode_row ?clock ?headers 1 (?dataRows ! 1) = ?ann"
    by (simp add: decode_row_def apply_defaults_def apply_header_def canonical_field_def
                  header_table_def stored_value_def cell_def field_or_def
                  string_of_nat.simps digit_char_def)
  have out: "decode_rows ?clock (?headers # ?dataRows) = [?ann]"
    by (simp add: decode_rows_def decode_row_def apply_defaults_def apply_header_def
                  canonical_field_def header_table_def stored_value_def cell_def field_or_def
                  isValid_def has_text_def trim_def is_space_def string_of_nat.simps
                  digit_char_def)
  then have mem: "?ann \<in> set (decode_rows ?clock (?headers # ?dataRows))"
    by simp
  have len: "(1::nat) < length ?dataRows"
    by simp
  note inst = row_decoder_validity [of ?clock "?headers # ?dataRows" ?headers ?dataRows]
  from inst mem
  have "(\<exists>n. map_of ?ann ''userName'' = Some n \<and> trim n \<noteq> []) \<and>
        (\<exists>e. map_of ?ann ''userEmail'' = Some e \<and> trim e \<noteq> []) \<and>
        (\<exists>p. map_of ?ann ''meetingPurpose'' = Some p \<and> trim p \<noteq> [])"
    by blast
  then have texts: "trim ''Ann'' \<noteq> [] \<and> trim ''ann@x.com'' \<noteq> [] \<and> trim ''Demo'' \<noteq> []"
    by simp
  from inst len
  have "(decode_row ?clock ?headers 1 (?dataRows ! 1)
           \<in> set (decode_rows ?clock (?headers # ?dataRows)))
        = isValid (decode_row ?clock ?headers 1 (?dataRows ! 1))"
    by blast
  with mem row have "isValid (decode_row ?clock ?headers 1 (?dataRows ! 1))"
    by (simp only:)
  with mem texts len show ?thesis
    by (intro conjI) (simp_all only: simp_thms)
qed

section \<open>The header switch matches exact spellings\<close>

lemma header_table_distinct: "distinct (map fst header_table)"
  by (simp add: header_table_def)

lemma canonical_field_table:
  "(header, field) \<in> set header_table \<Longrightarrow> canonical_field header = Some field"
  unfolding canonical_field_def using header_table_distinct by (rule map_of_is_SomeI)

lemma canonical_field_unknown:
  "header \<notin> fst ` set header_table \<Longrightarrow> canonical_field header = None"
  by (simp add: canonical_field_def map_of_eq_None_iff)

text \<open>
  C5, as the code has it. A header spelled exactly as a label of the table has its
  cell stored under the canonical field of that label. Any other header, a case or
  separator variant of a label included, has its cell stored under the header
  lowercased with the underscores removed, and the step changes no other property.
\<close>

theorem field_aliaser_exact_match:
  "((header, field) \<in> set header_table \<longrightarrow>
      canonical_field header = Some field \<and>
      apply_header m header v = AList.update field (stored_value field v) m)
   \<and> (header \<notin> fst ` set header_table \<longrightarrow>
        canonical_field header = None \<and>
        map_of (apply_header m header v) (strip_underscores (toLowerCase header)) = Some v \<and>
        (\<forall>k. k \<noteq> strip_underscores (toLowerCase header) \<longrightarrow>
               map_of (apply_header m header v) k = map_of m k))"
  by (auto simp: canonical_field_table canonical_field_unknown apply_header_def update_conv')

theorem field_aliaser_exact_match_witness:
  "(''Request_ID'', ''requestId'') \<in> set header_table
   \<and> apply_header [] ''Request_ID'' ''R1'' = [(''requestId'', ''R1'')]
   \<and> ''Budget_Code'' \<notin> fst ` set header_table
   \<and> map_of (apply_header [(''userName'', ''Ann'')] ''Budget_Code'' ''B7'') ''budgetcode'' = Some ''B7''
   \<and> map_of (apply_header [(''userName'', ''Ann'')] ''Budget_Code'' ''B7'') ''userName'' = Some ''Ann''"
proof -
  have a: "(''Request_ID'', ''requestId'') \<in> set header_table"
    by (simp add: header_table_def)
  have b: "''Budget_Code'' \<notin> fst ` set header_table"
    by (simp add: header_table_def)
  have c: "strip_underscores (toLowerCase ''Budget_Code'') = ''budgetcode''"
    by (simp add: strip_underscores_def toLowerCase_def lower_char_def)
  show ?thesis
    using a b c
      field_aliaser_exact_match [of "''Request_ID''" "''requestId''" "[]" "''R1''"]
      field_aliaser_exact_match [of "''Budget_Code''" "''x''" "[(''userName'', ''Ann'')]" "''B7''"]
    by (simp add: stored_value_def)
qed

text \<open>
  \<^verbatim>\<open>request_id\<close> differs from the label \<^verbatim>\<open>Request_ID\<close> only in case, yet the switch
  does not know it: its cell goes to the property \<^verbatim>\<open>requestid\<close>, not to \<^verbatim>\<open>requestId\<close>.
\<close>

theorem alias_is_case_sensitive:
  "same_modulo_case_and_separators ''request_id'' ''Request_ID''
   \<and> canonical_field ''Request_ID'' = Some ''requestId''
   \<and> canonical_field ''request_id'' = None
   \<and> apply_header [] ''request_id'' ''R1'' = [(''requestid'', ''R1'')]
   \<and> map_of (apply_header [] ''request_id'' ''R1'') ''requestId'' = None"
  by (simp add: same_modulo_case_and_separators_def strip_underscores_def toLowerCase_def
                lower_char_def canonical_field_def header_table_def apply_header_def)

section \<open>Defaults applied to a decoded row\<close>

text \<open>
  C6. After the column loop the three defaults are applied: a blank status becomes
  \<^verbatim>\<open>Pending\<close>, a blank request id becomes \<^verbatim>\<open>sheet_\<close> followed by the row number, a
  blank timestamp becomes the created date if that is not blank and the current time
  otherwise; a value that is not blank is kept. The example row of the specification
  decodes to one record whose status is \<^verbatim>\<open>Pending\<close>.
\<close>

theorem row_defaults:
  "(blank (map_columns [] headers 0 row) ''status'' \<longrightarrow>
      map_of (decode_row clock headers index row) ''status'' = Some ''Pending'')
   \<and> (\<not> blank (map_columns [] headers 0 row) ''status'' \<longrightarrow>
      map_of (decode_row clock headers index row) ''status''
        = map_of (map_columns [] headers 0 row) ''status'')
   \<and> (blank (map_columns [] headers 0 row) ''requestId'' \<longrightarrow>
      map_of (decode_row clock headers index row) ''requestId''
        = Some (''sheet_'' @ string_of_nat (index + 1)))
   \<and> (\<not> blank (map_columns [] headers 0 row) ''requestId'' \<longrightarrow>
      map_of (decode_row clock headers index row) ''requestId''
        = map_of (map_columns [] headers 0 row) ''requestId'')
   \<and> (\<not> blank (map_columns [] headers 0 row) ''timestamp'' \<longrightarrow>
      map_of (decode_row clock headers index row) ''timestamp''
        = map_of (map_columns [] headers 0 row) ''timestamp'')
   \<and> (blank (map_columns [] headers 0 row) ''timestamp'' \<and>
      \<not> blank (map_columns [] headers 0 row) ''createdDate'' \<longrightarrow>
      map_of (decode_row clock headers index row) ''timestamp''
        = map_of (map_columns [] headers 0 row) ''createdDate'')
   \<and> (blank (map_columns [] headers 0 row) ''timestamp'' \<and>
      blank (map_columns [] headers 0 row) ''createdDate'' \<longrightarrow>
      map_of (decode_row clock headers index row) ''timestamp'' = Some (clock index))
   \<and> decode_rows clock
        [[''Request_ID'', ''User_Name'', ''User_Email'', ''Meeting_Purpose'', ''Status''],
         [''R1'', ''Ann'', ''ann@x.com'', ''Demo'', '''']]
      = [[(''requestId'', ''R1''), (''userName'', ''Ann''), (''userEmail'', ''ann@x.com''),
          (''meetingPurpose'', ''Demo''), (''status'', ''Pending''),
          (''timestamp'', clock 0)]]"
proof -
  have example: "decode_rows clock
        [[''Request_ID'', ''User_Name'', ''User_Email'', ''Meeting_Purpose'', ''Status''],
         [''R1'', ''Ann'', ''ann@x.com'', ''Demo'', '''']]
      = [[(''requestId'', ''R1''), (''userName'', ''Ann''), (''userEmail'', ''ann@x.com''),
          (''meetingPurpose'', ''Demo''), (''status'', ''Pending''),
          (''timestamp'', clock 0)]]"
    by (simp add: decode_rows_def decode_row_def apply_defaults_def apply_header_def
                  canonical_field_def header_table_def stored_value_def cell_def field_or_def
                  isValid_def has_text_def trim_def is_space_def)
  have general: "\<And>m now.
      (blank m ''status'' \<longrightarrow> map_of (apply_defaults now index m) ''status'' = Some ''Pending'')
    \<and> (\<not> blank m ''status'' \<longrightarrow> map_of (apply_defaults now index m) ''status'' = map_of m ''status'')
    \<and> (blank m ''requestId'' \<longrightarrow>
         map_of (apply_defaults now index m) ''requestId''
           = Some (''sheet_'' @ string_of_nat (index + 1)))
    \<and> (\<not> blank m ''requestId'' \<longrightarrow>
         map_of (apply_defaults now index m) ''requestId'' = map_of m ''requestId'')
    \<and> (\<not> blank m ''timestamp'' \<longrightarrow>
         map_of (apply_defaults now index m) ''timestamp'' = map_of m ''timestamp'')
    \<and> (blank m ''timestamp'' \<and> \<not> blank m ''createdDate'' \<longrightarrow>
         map_of (apply_defaults now index m) ''timestamp'' = map_of m ''createdDate'')
    \<and> (blank m ''timestamp'' \<and> blank m ''createdDate'' \<longrightarrow>
         map_of (apply_defaults now index m) ''timestamp'' = Some now)"
    by (auto simp: map_of_apply_defaults_status map_of_apply_defaults_requestId
                   map_of_apply_defaults_timestamp field_or_def blank_def
             split: option.splits)
  from general [of "map_columns [] headers 0 row" "clock index"] example
  show ?thesis
    unfolding decode_row_def by (simp only: simp_thms)
qed

theorem row_defaults_witness:
  "blank (map_columns [] [''User_Name'', ''Created_Date''] 0 [''Ann'', ''2025-09-01'']) ''status''
   \<and> blank (map_columns [] [''User_Name'', ''Created_Date''] 0 [''Ann'', ''2025-09-01'']) ''requestId''
   \<and> blank (map_columns [] [''User_Name'', ''Created_Date''] 0 [''Ann'', ''2025-09-01'']) ''timestamp''
   \<and> \<not> blank (map_columns [] [''User_Name'', ''Created_Date''] 0 [''Ann'', ''2025-09-01''])
          ''createdDate''
   \<and> map_of (decode_row (\<lambda>i. ''T1'') [''User_Name'', ''Created_Date''] 4 [''Ann'', ''2025-09-01''])
        ''status'' = Some ''Pending''
   \<and> map_of (decode_row (\<lambda>i. ''T1'') [''User_Name'', ''Created_Date''] 4 [''Ann'', ''2025-09-01''])
        ''requestId'' = Some ''sheet_5''
   \<and> map_of (decode_row (\<lambda>i. ''T1'') [''User_Name'', ''Created_Date''] 4 [''Ann'', ''2025-09-01''])
        ''timestamp'' = Some ''2025-09-01''"
proof -
  have raw: "map_columns [] [''User_Name'', ''Created_Date''] 0 [''Ann'', ''2025-09-01'']
               = [(''userName'', ''Ann''), (''createdDate'', ''2025-09-01'')]"
    by (simp add: apply_header_def canonical_field_def header_table_def stored_value_def cell_def)
  note inst = row_defaults [of "[''User_Name'', ''Created_Date'']" "[''Ann'', ''2025-09-01'']"
                               "\<lambda>i. ''T1''" 4]
  show ?thesis
    using inst unfolding raw
    by (simp add: blank_def string_of_nat.simps digit_char_def)
qed

section \<open>Request identifiers\<close>

lemma synthesized_ids:
  assumes "\<forall>row \<in> set dataRows. blank (map_columns [] headers 0 row) ''requestId''"
  shows "request_ids (map (\<lambda>(index, row). decode_row clock headers index row)
                          (enumerate n dataRows))
           = map (\<lambda>i. Some (''sheet_'' @ string_of_nat (i + 1))) [n..<n + length dataRows]"
  using assms
proof (induction dataRows arbitrary: n)
  case Nil
  then show ?case by (simp add: request_ids_def)
next
  case (Cons row dataRows)
  have "[n..<n + length (row # dataRows)] = n # [Suc n..<Suc n + length dataRows]"
    by (subst upt_rec) simp
  moreover have "map_of (decode_row clock headers n row) ''requestId''
                   = Some (''sheet_'' @ string_of_nat (n + 1))"
    using Cons.prems
    by (auto simp: decode_row_def map_of_apply_defaults_requestId field_or_def blank_def)
  moreover have "request_ids (map (\<lambda>(index, row). decode_row clock headers index row)
                                  (enumerate (Suc n) dataRows))
                   = map (\<lambda>i. Some (''sheet_'' @ string_of_nat (i + 1)))
                         [Suc n..<Suc n + length dataRows]"
    using Cons.prems by (intro Cons.IH) simp
  ultimately show ?case
    by (simp add: request_ids_def)
qed

lemma sheet_ids_distinct:
  "distinct (map (\<lambda>i. Some (''sheet_'' @ string_of_nat (i + 1))) [n..<k])"
  by (auto simp: distinct_map inj_on_def dest: string_of_nat_inj)

text \<open>
  C9, as the code has it. The request id of a decoded row is the id found in the
  sheet when that is not blank and \<^verbatim>\<open>sheet_\<close> followed by the row number otherwise;
  when every row had its id synthesized, the ids of the returned list are pairwise
  distinct. At submission the id is the clock reading, an underscore and the random
  suffix, so two such ids agree only if both parts agree.
\<close>

theorem request_id_synthesis:
  "(blank (map_columns [] headers 0 row) ''requestId'' \<longrightarrow>
      map_of (decode_row clock headers index row) ''requestId''
        = Some (''sheet_'' @ string_of_nat (index + 1)))
   \<and> (\<not> blank (map_columns [] headers 0 row) ''requestId'' \<longrightarrow>
      map_of (decode_row clock headers index row) ''requestId''
        = map_of (map_columns [] headers 0 row) ''requestId'')
   \<and> ((\<forall>r \<in> set dataRows. blank (map_columns [] headers 0 r) ''requestId'') \<longrightarrow>
        distinct (request_ids (decode_rows clock (headers # dataRows))))
   \<and> new_request_id millis rnd = string_of_nat millis @ ''_'' @ rnd
   \<and> (new_request_id millis rnd = new_request_id millis' rnd' \<longrightarrow>
        millis = millis' \<and> rnd = rnd')"
proof (intro conjI impI)
  assume "blank (map_columns [] headers 0 row) ''requestId''"
  then show "map_of (decode_row clock headers index row) ''requestId''
        = Some (''sheet_'' @ string_of_nat (index + 1))"
    by (auto simp: decode_row_def map_of_apply_defaults_requestId field_or_def blank_def)
next
  assume "\<not> blank (map_columns [] headers 0 row) ''requestId''"
  then show "map_of (decode_row clock headers index row) ''requestId''
        = map_of (map_columns [] headers 0 row) ''requestId''"
    by (auto simp: decode_row_def map_of_apply_defaults_requestId field_or_def blank_def)
next
  assume "\<forall>r \<in> set dataRows. blank (map_columns [] headers 0 r) ''requestId''"
  then have "distinct (request_ids (map (\<lambda>(index, row). decode_row clock headers index row)
                                        (enumerate 0 dataRows)))"
    by (simp only: synthesized_ids sheet_ids_distinct)
  then show "distinct (request_ids (decode_rows clock (headers # dataRows)))"
    unfolding request_ids_def decode_rows_Cons by (rule distinct_map_filter)
next
  show "new_request_id millis rnd = string_of_nat millis @ ''_'' @ rnd"
    by (simp add: new_request_id_def)
next
  assume "new_request_id millis rnd = new_request_id millis' rnd'"
  then have "string_of_nat millis @ CHR ''_'' # rnd = string_of_nat millis' @ CHR ''_'' # rnd'"
    by (simp add: new_request_id_def)
  then have "string_of_nat millis = string_of_nat millis' \<and> rnd = rnd'"
    by (rule split_at_first_underscore) (rule string_of_nat_no_underscore)+
  then show "millis = millis'" and "rnd = rnd'"
    by (simp_all add: string_of_nat_inj)
qed

theorem request_id_synthesis_witness:
  "blank (map_columns [] [''User_Name'', ''User_Email'', ''Meeting_Purpose''] 0
            [''Ann'', ''ann@x.com'', ''Demo'']) ''requestId''
   \<and> blank (map_columns [] [''User_Name'', ''User_Email'', ''Meeting_Purpose''] 0
            [''Bob'', ''bob@x.com'', ''Call'']) ''requestId''
   \<and> request_ids (decode_rows (\<lambda>i. ''T1'')
        [[''User_Name'', ''User_Email'', ''Meeting_Purpose''],
         [''Ann'', ''ann@x.com'', ''Demo''], [''Bob'', ''bob@x.com'', ''Call'']])
      = [Some ''sheet_1'', Some ''sheet_2'']
   \<and> distinct (request_ids (decode_rows (\<lambda>i. ''T1'')
        [[''User_Name'', ''User_Email'', ''Meeting_Purpose''],
         [''Ann'', ''ann@x.com'', ''Demo''], [''Bob'', ''bob@x.com'', ''Call'']]))"
proof -
  have h: "\<forall>r \<in> set [[''Ann'', ''ann@x.com'', ''Demo''], [''Bob'', ''bob@x.com'', ''Call'']].
      blank (map_columns [] [''User_Name'', ''User_Email'', ''Meeting_Purpose''] 0 r) ''requestId''"
    by (simp add: blank_def apply_header_def canonical_field_def header_table_def
                  stored_value_def cell_def)
  have ids: "request_ids (decode_rows (\<lambda>i. ''T1'')
        [[''User_Name'', ''User_Email'', ''Meeting_Purpose''],
         [''Ann'', ''ann@x.com'', ''Demo''], [''Bob'', ''bob@x.com'', ''Call'']])
      = [Some ''sheet_1'', Some ''sheet_2'']"
    by (simp add: request_ids_def decode_rows_def decode_row_def apply_defaults_def
                  apply_header_def canonical_field_def header_table_def stored_value_def
                  cell_def field_or_def isValid_def has_text_def trim_def is_space_def
                  string_of_nat.simps digit_char_def)
  from h request_id_synthesis
         [of "[''User_Name'', ''User_Email'', ''Meeting_Purpose'']" "[]" "\<lambda>i. ''T1''" 0
             "[[''Ann'', ''ann@x.com'', ''Demo''], [''Bob'', ''bob@x.com'', ''Call'']]"]
  have "distinct (request_ids (decode_rows (\<lambda>i. ''T1'')
        [[''User_Name'', ''User_Email'', ''Meeting_Purpose''],
         [''Ann'', ''ann@x.com'', ''Demo''], [''Bob'', ''bob@x.com'', ''Call'']]))"
    by blast
  moreover from h
  have "blank (map_columns [] [''User_Name'', ''User_Email'', ''Meeting_Purpose''] 0
                 [''Ann'', ''ann@x.com'', ''Demo'']) ''requestId''"
    and "blank (map_columns [] [''User_Name'', ''User_Email'', ''Meeting_Purpose''] 0
                 [''Bob'', ''bob@x.com'', ''Call'']) ''requestId''"
    by (simp_all only: list.set ball_simps simp_thms)
  ultimately show ?thesis
    using ids by (intro conjI)
qed

text \<open>
  Two rows that carry the same \<^verbatim>\<open>Request_ID\<close> are both returned, with that same id.
\<close>

theorem duplicate_request_ids_survive:
  "request_ids (decode_rows (\<lambda>i. ''T1'')
        [[''Request_ID'', ''User_Name'', ''User_Email'', ''Meeting_Purpose''],
         [''R1'', ''Ann'', ''ann@x.com'', ''Demo''], [''R1'', ''Bob'', ''bob@x.com'', ''Call'']])
     = [Some ''R1'', Some ''R1'']
   \<and> \<not> distinct (request_ids (decode_rows (\<lambda>i. ''T1'')
        [[''Request_ID'', ''User_Name'', ''User_Email'', ''Meeting_Purpose''],
         [''R1'', ''Ann'', ''ann@x.com'', ''Demo''], [''R1'', ''Bob'', ''bob@x.com'', ''Call'']]))"
  by (simp add: request_ids_def decode_rows_def decode_row_def apply_defaults_def
                apply_header_def canonical_field_def header_table_def stored_value_def
                cell_def field_or_def isValid_def has_text_def trim_def is_space_def)


section \<open>generateStatistics and the status named total\<close>

lemma map_of_bump_total:
  "map_of (bump k st) ''total'' =
     (if k = ''total'' then map_option increment (map_of st ''total'') else map_of st ''total'')"
proof (cases "k \<in> set (map fst st)")
  case True
  then show ?thesis
    by (simp add: bump_def map_of_map_entry split: option.splits)
next
  case False
  then have "map_of st k = None"
    by (simp add: map_of_eq_None_iff)
  with False show ?thesis
    by (auto simp: bump_def)
qed

lemma map_of_bump_in_other:
  "g \<noteq> k' \<Longrightarrow> map_of (bump_in g k st) k' = map_of st k'"
  by (auto simp: bump_in_def update_conv' split: option.splits slot.splits)

lemma map_of_count_meeting_total:
  "map_of (count_meeting st m) ''total'' =
     (if lowered_or m ''status'' ''pending'' = ''total''
      then map_option increment (map_of st ''total'') else map_of st ''total'')"
  by (simp add: count_meeting_def map_of_bump_in_other map_of_bump_total)

lemma foldl_count_meeting_total:
  "map_of st ''total'' = Some (Count n) \<Longrightarrow>
   map_of (foldl count_meeting st ms) ''total'' =
     Some (Count (n + length (filter (\<lambda>m. lowered_or m ''status'' ''pending'' = ''total'') ms)))"
proof (induction ms arbitrary: st n)
  case Nil
  then show ?case by simp
next
  case (Cons m ms)
  show ?case
  proof (cases "lowered_or m ''status'' ''pending'' = ''total''")
    case True
    with Cons.prems have "map_of (count_meeting st m) ''total'' = Some (Count (n + 1))"
      by (simp add: map_of_count_meeting_total)
    from Cons.IH [OF this] True show ?thesis by simp
  next
    case False
    with Cons.prems have "map_of (count_meeting st m) ''total'' = Some (Count n)"
      by (simp add: map_of_count_meeting_total)
    from Cons.IH [OF this] False show ?thesis by simp
  qed
qed

lemma total_counts_status_total:
  "map_of (generateStatistics ms) ''total'' =
     Some (Count (length ms +
                  length (filter (\<lambda>m. lowered_or m ''status'' ''pending'' = ''total'') ms)))"
  unfolding generateStatistics_def
  by (rule foldl_count_meeting_total) (simp add: initial_stats_def)

text \<open>
  C7. For the statuses pending, pending, approved the counters are as the
  specification says. A sheet row whose status cell reads \<^verbatim>\<open>Total\<close> decodes to one valid
  record, and that one record makes \<^verbatim>\<open>total\<close> 2: it is counted by
  \<^verbatim>\<open>meetings.length\<close> and once more because \<^verbatim>\<open>total\<close> is itself a property of the
  object in which the status is looked up. A status that is no property of that object
  leaves \<^verbatim>\<open>total\<close> at 1.
\<close>

theorem status_total_inflates_total:
  "length (decode_rows clock
             [[''User_Name'', ''User_Email'', ''Meeting_Purpose'', ''Status''],
              [''Ann'', ''ann@x.com'', ''Demo'', ''Total'']]) = 1
   \<and> map_of (generateStatistics (decode_rows clock
             [[''User_Name'', ''User_Email'', ''Meeting_Purpose'', ''Status''],
              [''Ann'', ''ann@x.com'', ''Demo'', ''Total'']])) ''total'' = Some (Count 2)
   \<and> map_of (generateStatistics (decode_rows clock
             [[''User_Name'', ''User_Email'', ''Meeting_Purpose'', ''Status''],
              [''Ann'', ''ann@x.com'', ''Demo'', ''Archived'']])) ''total'' = Some (Count 1)
   \<and> generateStatistics
        [[(''status'', ''pending'')], [(''status'', ''Pending'')], [(''status'', ''approved'')]]
      = [(''total'', Count 3), (''pending'', Count 2), (''approved'', Count 1),
         (''rejected'', Count 0), (''rescheduled'', Count 0),
         (''byPriority'', Group [(''high'', 0), (''medium'', 3), (''low'', 0)]),
         (''byMeetingType'', Group [(''online'', 3), (''offline'', 0), (''hybrid'', 0)])]"
proof -
  have total_row: "decode_rows clock
             [[''User_Name'', ''User_Email'', ''Meeting_Purpose'', ''Status''],
              [''Ann'', ''ann@x.com'', ''Demo'', ''Total'']]
        = [[(''userName'', ''Ann''), (''userEmail'', ''ann@x.com''), (''meetingPurpose'', ''Demo''),
            (''status'', ''Total''), (''requestId'', ''sheet_1''), (''timestamp'', clock 0)]]"
    by (simp add: decode_rows_def decode_row_def apply_defaults_def apply_header_def
                  canonical_field_def header_table_def stored_value_def cell_def field_or_def
                  isValid_def has_text_def trim_def is_space_def string_of_nat.simps
                  digit_char_def)
  have other_row: "decode_rows clock
             [[''User_Name'', ''User_Email'', ''Meeting_Purpose'', ''Status''],
              [''Ann'', ''ann@x.com'', ''Demo'', ''Archived'']]
        = [[(''userName'', ''Ann''), (''userEmail'', ''ann@x.com''), (''meetingPurpose'', ''Demo''),
            (''status'', ''Archived''), (''requestId'', ''sheet_1''), (''timestamp'', clock 0)]]"
    by (simp add: decode_rows_def decode_row_def apply_defaults_def apply_header_def
                  canonical_field_def header_table_def stored_value_def cell_def field_or_def
                  isValid_def has_text_def trim_def is_space_def string_of_nat.simps
                  digit_char_def)
  show ?thesis
    unfolding total_row other_row
    by (simp add: generateStatistics_def count_meeting_def initial_stats_def bump_def
                  bump_in_def lowered_or_def toLowerCase_def lower_char_def)
qed

section \<open>The dashboard counters\<close>



section \<open>Validation of an admin action\<close>

lemma property_to_body:
  "property (to_body actionData) k = map_option JStr (map_of actionData k)"
  by (simp add: to_body_def map_of_map)

lemma post_action_invalid:
  assumes "map_of actionData ''action'' \<notin> Some ` set validActions"
  shows "status (reply (post_action adminEmail stamp webhookUrl posting (to_body actionData))) = 400
         \<and> posted (post_action adminEmail stamp webhookUrl posting (to_body actionData)) = []"
proof (cases "map_of actionData ''action''")
  case None
  then show ?thesis
    by (simp add: post_action_def truthy_prop_def property_to_body error_reply_def)
next
  case (Some a)
  with assms have "a \<notin> set validActions" by auto
  then have "List.find (\<lambda>x. a = x) validActions = None"
    by (simp add: find_None_iff)
  with Some show ?thesis
    by (simp add: post_action_def truthy_prop_def property_to_body error_reply_def)
qed

lemma post_action_rejects:
  assumes "\<not> truthy_prop reqBody ''requestId'' \<or>
           property reqBody ''action'' \<notin> (\<lambda>a. Some (JStr a)) ` set validActions"
  shows "status (reply (post_action adminEmail stamp webhookUrl posting reqBody)) = 400
         \<and> posted (post_action adminEmail stamp webhookUrl posting reqBody) = []"
proof (cases "truthy_prop reqBody ''requestId'' \<and> truthy_prop reqBody ''action''")
  case False
  then show ?thesis
    by (auto simp: post_action_def error_reply_def)
next
  case True
  with assms have "property reqBody ''action'' \<notin> (\<lambda>a. Some (JStr a)) ` set validActions"
    by simp
  then have "List.find (\<lambda>a. property reqBody ''action'' = Some (JStr a)) validActions = None"
    by (auto simp: find_None_iff)
  with True show ?thesis
    by (simp add: post_action_def error_reply_def)
qed

lemma post_action_forwards:
  assumes "truthy_prop reqBody ''requestId''"
    "property reqBody ''action'' = Some (JStr a)" "a \<in> set validActions"
  shows "status (reply (post_action adminEmail stamp (Some (u # us)) (Inr code) reqBody)) = 200
         \<and> length (posted (post_action adminEmail stamp (Some (u # us)) (Inr code) reqBody)) = 1"
proof -
  from assms(3) have "a \<noteq> []"
    by (auto simp: validActions_def)
  with assms(2) have act: "truthy_prop reqBody ''action''"
    by (simp add: truthy_prop_def)
  from assms(3) have "List.find (\<lambda>x. a = x) validActions = Some a"
    by (auto simp: validActions_def)
  with assms(1,2) act show ?thesis
    by (simp add: post_action_def Let_def)
qed

text \<open>
  C3, as the code has it. The server handler answers 400 and posts nothing to the
  webhook unless the body has a request id and an action that is one of approve,
  reject, reschedule; with those two it forwards the action, whatever the body says
  about a new date or time. The reschedule checks are made in the page, before the
  server is called: a reschedule without a new date or without a new time is
  stopped there, and so is a reschedule whose date and time parse to an instant that
  is not later than now. Through page and server together, an action that is none of
  the three is not accepted and nothing is posted.
\<close>

theorem submit_action_validation:
  "(map_of (collect_form entries) ''action'' \<notin> Some ` set validActions \<longrightarrow>
      \<not> accepted (submitAction parse now adminEmail stamp webhookUrl posting entries) \<and>
      webhook_posts (submitAction parse now adminEmail stamp webhookUrl posting entries) = [])
   \<and> (map_of (collect_form entries) ''action'' = Some ''reschedule'' \<and>
       (blank (collect_form entries) ''newDate'' \<or> blank (collect_form entries) ''newTime'') \<longrightarrow>
      submitAction parse now adminEmail stamp webhookUrl posting entries
        = Alerted ''Please provide new date and time for rescheduling.'')
   \<and> (map_of (collect_form entries) ''action'' = Some ''reschedule'' \<and>
       map_of (collect_form entries) ''newDate'' = Some (d # ds) \<and>
       map_of (collect_form entries) ''newTime'' = Some (t # ts) \<and>
       parse ((d # ds) @ ''T'' @ (t # ts)) = Some instant \<and> instant \<le> now \<longrightarrow>
      submitAction parse now adminEmail stamp webhookUrl posting entries
        = Alerted ''Please select a future date and time.'')
   \<and> webhook_posts (Alerted msg) = [] \<and> \<not> accepted (Alerted msg)
   \<and> (map_of (collect_form entries) ''action'' = Some ''reschedule'' \<and>
       (blank (collect_form entries) ''newDate'' \<or> blank (collect_form entries) ''newTime'') \<longrightarrow>
      confirmAction parse now server entries
        = Alerted ''Please provide new date and time for rescheduling.'')
   \<and> (map_of (collect_form entries) ''action'' = Some ''reschedule'' \<and>
       map_of (collect_form entries) ''newDate'' = Some (d # ds) \<and>
       map_of (collect_form entries) ''newTime'' = Some (t # ts) \<and>
       parse ((d # ds) @ ''T'' @ (t # ts)) = Some instant \<and> instant \<le> now \<longrightarrow>
      confirmAction parse now server entries = Alerted ''Please select a future date and time.'')
   \<and> (\<not> truthy_prop reqBody ''requestId'' \<longrightarrow>
      status (reply (post_action adminEmail stamp webhookUrl posting reqBody)) = 400 \<and>
      posted (post_action adminEmail stamp webhookUrl posting reqBody) = [])
   \<and> (property reqBody ''action'' \<notin> (\<lambda>a. Some (JStr a)) ` set validActions \<longrightarrow>
      status (reply (post_action adminEmail stamp webhookUrl posting reqBody)) = 400 \<and>
      posted (post_action adminEmail stamp webhookUrl posting reqBody) = [])
   \<and> (truthy_prop reqBody ''requestId'' \<and> property reqBody ''action'' = Some (JStr a) \<and>
       a \<in> set validActions \<longrightarrow>
      status (reply (post_action adminEmail stamp (Some (u # us)) (Inr code) reqBody)) = 200 \<and>
      length (posted (post_action adminEmail stamp (Some (u # us)) (Inr code) reqBody)) = 1)"
proof -
  have page_missing: "confirmAction parse now srv entries
        = Alerted ''Please provide new date and time for rescheduling.''"
    if "map_of (collect_form entries) ''action'' = Some ''reschedule'' \<and>
       (blank (collect_form entries) ''newDate'' \<or> blank (collect_form entries) ''newTime'')"
    for srv
    using that by (auto simp: confirmAction_def Let_def)
  have page_past: "confirmAction parse now srv entries
        = Alerted ''Please select a future date and time.''"
    if "map_of (collect_form entries) ''action'' = Some ''reschedule'' \<and>
       map_of (collect_form entries) ''newDate'' = Some (d # ds) \<and>
       map_of (collect_form entries) ''newTime'' = Some (t # ts) \<and>
       parse ((d # ds) @ ''T'' @ (t # ts)) = Some instant \<and> instant \<le> now"
    for srv
    using that by (simp add: confirmAction_def Let_def blank_def field_or_def)
  have both: "\<not> accepted (submitAction parse now adminEmail stamp webhookUrl posting entries) \<and>
      webhook_posts (submitAction parse now adminEmail stamp webhookUrl posting entries) = []"
    if bad: "map_of (collect_form entries) ''action'' \<notin> Some ` set validActions"
  proof -
    from bad have "map_of (collect_form entries) ''action'' \<noteq> Some ''reschedule''"
      by (auto simp: validActions_def)
    then have run: "submitAction parse now adminEmail stamp webhookUrl posting entries
        = Replied (post_action adminEmail stamp webhookUrl posting (to_body (collect_form entries)))"
      by (simp add: submitAction_def confirmAction_def Let_def)
    from post_action_invalid [OF bad, of adminEmail stamp webhookUrl posting] run
    show ?thesis by simp
  qed
  show ?thesis
    using both page_missing page_past
      post_action_rejects [of reqBody adminEmail stamp webhookUrl posting]
      post_action_forwards [of reqBody a adminEmail stamp u us code]
    unfolding submitAction_def
    by (intro conjI impI) (simp_all only: webhook_posts.simps accepted.simps simp_thms)
qed

theorem submit_action_validation_witness:
  "map_of (collect_form [(''requestId'', ''R1''), (''action'', ''delete'')]) ''action''
      \<notin> Some ` set validActions
   \<and> \<not> accepted (submitAction (\<lambda>s. Some 5) 10 (JStr ''admin@x.com'') ''T1'' (Some ''http://n8n/act'')
                   (Inr 200) [(''requestId'', ''R1''), (''action'', ''delete'')])
   \<and> webhook_posts (submitAction (\<lambda>s. Some 5) 10 (JStr ''admin@x.com'') ''T1''
                   (Some ''http://n8n/act'') (Inr 200)
                   [(''requestId'', ''R1''), (''action'', ''delete'')]) = []
   \<and> map_of (collect_form [(''requestId'', ''R1''), (''action'', ''reschedule''),
                            (''newDate'', ''2020-01-01''), (''newTime'', ''10:00'')]) ''action''
       = Some ''reschedule''
   \<and> (\<lambda>s. if s = ''2020-01-01T10:00'' then Some (5::int) else None)
        (''2020-01-01'' @ ''T'' @ ''10:00'') = Some 5
   \<and> (5::int) \<le> 10
   \<and> submitAction (\<lambda>s. if s = ''2020-01-01T10:00'' then Some 5 else None) 10
        (JStr ''admin@x.com'') ''T1'' (Some ''http://n8n/act'') (Inr 200)
        [(''requestId'', ''R1''), (''action'', ''reschedule''),
         (''newDate'', ''2020-01-01''), (''newTime'', ''10:00'')]
       = Alerted ''Please select a future date and time.''
   \<and> property (JObj [(''requestId'', JStr ''R1''), (''action'', JNum 7)]) ''action''
       \<notin> (\<lambda>a. Some (JStr a)) ` set validActions
   \<and> status (reply (post_action (JStr ''admin@x.com'') ''T1'' (Some ''http://n8n/act'') (Inr 200)
                      (JObj [(''requestId'', JStr ''R1''), (''action'', JNum 7)]))) = 400
   \<and> posted (post_action (JStr ''admin@x.com'') ''T1'' (Some ''http://n8n/act'') (Inr 200)
                      (JObj [(''requestId'', JStr ''R1''), (''action'', JNum 7)])) = []
   \<and> truthy_prop (JObj [(''requestId'', JStr ''R1''), (''action'', JStr ''approve'')]) ''requestId''
   \<and> ''approve'' \<in> set validActions
   \<and> status (reply (post_action (JStr ''admin@x.com'') ''T1'' (Some ''http://n8n/act'') (Inr 200)
                      (JObj [(''requestId'', JStr ''R1''), (''action'', JStr ''approve'')]))) = 200"
proof -
  have form1: "collect_form [(''requestId'', ''R1''), (''action'', ''delete'')]
                 = [(''requestId'', ''R1''), (''action'', ''delete'')]"
    by (simp add: collect_form_def trim_def is_space_def)
  have form2: "collect_form [(''requestId'', ''R1''), (''action'', ''reschedule''),
                            (''newDate'', ''2020-01-01''), (''newTime'', ''10:00'')]
                 = [(''requestId'', ''R1''), (''action'', ''reschedule''),
                    (''newDate'', ''2020-01-01''), (''newTime'', ''10:00'')]"
    by (simp add: collect_form_def trim_def is_space_def)
  note first = submit_action_validation
      [where entries = "[(''requestId'', ''R1''), (''action'', ''delete'')]"
         and parse = "\<lambda>s. Some 5" and now = 10 and adminEmail = "JStr ''admin@x.com''"
         and stamp = "''T1''" and webhookUrl = "Some ''http://n8n/act''" and posting = "Inr 200"
         and reqBody = "JObj [(''requestId'', JStr ''R1''), (''action'', JNum 7)]"]
  note second = submit_action_validation
      [where entries = "[(''requestId'', ''R1''), (''action'', ''reschedule''),
                         (''newDate'', ''2020-01-01''), (''newTime'', ''10:00'')]"
         and parse = "\<lambda>s. if s = ''2020-01-01T10:00'' then Some 5 else None" and now = 10
         and adminEmail = "JStr ''admin@x.com''" and stamp = "''T1''"
         and webhookUrl = "Some ''http://n8n/act''" and posting = "Inr 200"
         and d = "CHR ''2''" and ds = "''020-01-01''" and t = "CHR ''1''" and ts = "''0:00''"
         and instant = 5
         and reqBody = "JObj [(''requestId'', JStr ''R1''), (''action'', JStr ''approve'')]"
         and a = "''approve''" and u = "CHR ''h''" and us = "''ttp://n8n/act''" and code = 200]
  show ?thesis
    using first second unfolding form1 form2
    by (simp add: validActions_def truthy_prop_def)
qed

text \<open>
  A reschedule that reaches the server without a new date and time is forwarded to
  the webhook and answered with success; and a reschedule whose date text does not
  parse passes the page, since the comparison with an invalid date is false.
\<close>

theorem reschedule_checks_only_in_the_page:
  "status (reply (post_action (JStr ''admin@x.com'') ''T1'' (Some ''http://n8n/act'') (Inr 200)
                    (JObj [(''requestId'', JStr ''R1''), (''action'', JStr ''reschedule'')]))) = 200
   \<and> length (posted (post_action (JStr ''admin@x.com'') ''T1'' (Some ''http://n8n/act'') (Inr 200)
                    (JObj [(''requestId'', JStr ''R1''), (''action'', JStr ''reschedule'')]))) = 1
   \<and> status (reply (post_action (JStr ''admin@x.com'') ''T1'' (Some ''http://n8n/act'') (Inr 200)
                    (JObj [(''requestId'', JStr ''R1''), (''action'', JStr ''reschedule''),
                           (''newDate'', JStr ''2001-01-01''), (''newTime'', JStr ''10:00'')]))) = 200
   \<and> accepted (submitAction (\<lambda>s. None) 10 (JStr ''admin@x.com'') ''T1''
                  (Some ''http://n8n/act'') (Inr 200)
                  [(''requestId'', ''R1''), (''action'', ''reschedule''),
                   (''newDate'', ''someday''), (''newTime'', ''noon'')])
   \<and> length (webhook_posts (submitAction (\<lambda>s. None) 10 (JStr ''admin@x.com'') ''T1''
                  (Some ''http://n8n/act'') (Inr 200)
                  [(''requestId'', ''R1''), (''action'', ''reschedule''),
                   (''newDate'', ''someday''), (''newTime'', ''noon'')])) = 1"
  by (simp add: submitAction_def confirmAction_def collect_form_def trim_def is_space_def
                blank_def field_or_def to_body_def post_action_def truthy_prop_def
                validActions_def or_else_def)

text \<open>The model does let a well-formed action through: it is posted once and accepted.\<close>

lemma submit_action_approve_passes:
  "submitAction parse now (JStr ''admin@x.com'') ''T1'' (Some ''http://n8n/act'') (Inr 200)
     [(''requestId'', ''R1''), (''action'', '' approve '')]
   = Replied
       \<lparr>reply = \<lparr>status = 200,
                  body = JObj [(''success'', JBool True),
                               (''message'', JStr ''Meeting approve successfully''),
                               (''action'', JStr ''approve''),
                               (''requestId'', JStr ''R1'')]\<rparr>,
        posted = [JObj [(''requestId'', JStr ''R1''), (''action'', JStr ''approve''),
                        (''adminEmail'', JStr ''admin@x.com''), (''adminNotes'', JStr []),
                        (''newDate'', JNull), (''newTime'', JNull), (''newDuration'', JNull),
                        (''newLocation'', JNull), (''newMeetingType'', JNull),
                        (''timestamp'', JStr ''T1'')]]\<rparr>"
  by (simp add: submitAction_def confirmAction_def collect_form_def trim_def is_space_def
                to_body_def post_action_def truthy_prop_def validActions_def or_else_def)


end
